theory Spec2Isabelle
  imports Main "HOL-Library.Word"
begin

section \<open>Challenge-response authentication over a socket (server2.cpp, client2.cpp)\<close>

text \<open>
  The verified code is the HMAC variant of the repository: \<^verbatim>\<open>server2.cpp\<close> (the Verifier)
  and \<^verbatim>\<open>client2.cpp\<close> (the Prover). A \<^verbatim>\<open>std::string\<close> is a sequence of bytes and
  is modelled as \<^typ>\<open>string\<close>, whose characters are 8-bit values. The library and
  system calls the code makes (\<^verbatim>\<open>RAND_bytes\<close>, \<^verbatim>\<open>HMAC\<close>, \<^verbatim>\<open>read\<close>, \<^verbatim>\<open>send\<close>,
  \<^verbatim>\<open>close\<close>, \<^verbatim>\<open>accept\<close>) are the environment: the two OpenSSL functions are
  parameters of the model, the socket calls act on an explicit \<open>world\<close>.
\<close>

subsection \<open>Failures\<close>

text \<open>
  Every \<^verbatim>\<open>throw std::runtime_error(msg)\<close> of the source is \<open>Inl (Runtime_error msg)\<close>.
  An access beyond the end of a fixed-size stack array is undefined behaviour in C++; the
  model makes it the outcome \<open>Inl Out_of_bounds\<close>. A process that writes to a connection
  that is broken receives the signal SIGPIPE; the source installs no handler and never
  ignores the signal, so the process is killed inside the call: the outcome \<open>Inl Sigpipe\<close>.
  No \<^verbatim>\<open>catch\<close> clause handles the last two.
\<close>

datatype failure = Runtime_error string | Out_of_bounds | Sigpipe

subsection \<open>Constants\<close>

definition SHARED_SECRET :: string where
  "SHARED_SECRET = ''pass123''"

text \<open>The character \<^verbatim>\<open>\n\<close> and the zero byte of a value-initialised buffer.\<close>

definition newline :: string where
  "newline = [CHR 0x0A]"

definition zero_buffer :: "nat \<Rightarrow> string" where
  "zero_buffer n = replicate n (CHR 0x00)"

text \<open>
  \<^verbatim>\<open>static_cast<int>(n)\<close> for a \<^verbatim>\<open>size_t n\<close>: the low 32 bits, read as two's
  complement.
\<close>

definition static_cast_int :: "nat \<Rightarrow> int" where
  "static_cast_int n = sint (word_of_nat n :: 32 word)"

subsection \<open>The OpenSSL functions\<close>

text \<open>
  \<^verbatim>\<open>int RAND_bytes(unsigned char *buf, int num)\<close>: the model of a call is the pair of its
  return value and the bytes it stored at \<^verbatim>\<open>buf[0]\<close>, \<^verbatim>\<open>buf[1]\<close>, ...

  \<^verbatim>\<open>unsigned char *HMAC(EVP_sha1(), key, key_len, data, data_len, NULL, NULL)\<close>: the
  model of a call is \<open>None\<close> for a null pointer, and otherwise the memory behind the
  returned pointer, a function from the offset to the byte stored there. The source copies
  the bytes out at once, before any other call can overwrite OpenSSL's buffer.
\<close>

type_synonym rand_bytes = "int \<Rightarrow> int \<times> string"

type_synonym hmac = "string \<Rightarrow> int \<Rightarrow> string \<Rightarrow> nat \<Rightarrow> (nat \<Rightarrow> char) option"

subsection \<open>generate\_challenge (server2.cpp, lines 20-30)\<close>

definition generate_challenge :: "rand_bytes \<Rightarrow> nat \<Rightarrow> failure + string" where
  "generate_challenge RAND_bytes len =
     (let buffer = zero_buffer 64;
          (ret, written) = RAND_bytes (static_cast_int len)
      in if 64 < length written then Inl Out_of_bounds
         else let buffer' = written @ drop (length written) buffer
              in if ret = 0 then Inl (Runtime_error ''Failed to generate random challenge'')
                 else if 64 < len then Inl Out_of_bounds
                 else Inr (take len buffer'))"

text \<open>The call \<^verbatim>\<open>generate_challenge()\<close>, with the default argument \<^verbatim>\<open>length = 16\<close>.\<close>

definition generate_challenge_default :: "rand_bytes \<Rightarrow> failure + string" where
  "generate_challenge_default RAND_bytes = generate_challenge RAND_bytes 16"

subsection \<open>compute\_hmac (server2.cpp, lines 39-72; client2.cpp, lines 17-37)\<close>

definition compute_hmac :: "hmac \<Rightarrow> string \<Rightarrow> string \<Rightarrow> failure + string" where
  "compute_hmac HMAC data key =
     (let len = 20
      in case HMAC key (static_cast_int (length key)) data (length data) of
           None \<Rightarrow> Inl (Runtime_error ''HMAC computation failed'')
         | Some raw_result \<Rightarrow> Inr (map raw_result [0..<len]))"

subsection \<open>The sockets\<close>

text \<open>
  A connection is a byte stream. What the kernel hands to the successive \<^verbatim>\<open>read\<close>
  calls on a descriptor is a list of deliveries: a segment of bytes that has arrived, the
  end of the stream (the peer has closed), or a failure of the call. A segment longer than
  the buffer of the call stays in the queue with its unread rest. A descriptor whose list is
  used up reads as closed by the peer.

  What the kernel does with the successive \<^verbatim>\<open>send\<close> calls on a descriptor is a list as
  well: it accepts the bytes for transmission, it refuses them (the call returns \<open>- 1\<close>
  and nothing is transmitted), or the connection is broken (the peer has closed and reset
  it). A descriptor whose list is used up accepts.

  The effects of the program, in the order it makes them, are the trace of the world: the
  bytes of each \<^verbatim>\<open>send\<close> that the kernel accepted, each \<^verbatim>\<open>close\<close>, and each line
  written to \<^verbatim>\<open>std::cout\<close> or \<^verbatim>\<open>std::cerr\<close>.
\<close>

datatype delivery = Segment string | Fin | Failed

datatype acceptance = Accepted | Refused | Broken_pipe

datatype event = Send int string | Close int | Cout string | Cerr string

record world =
  rx :: "int \<Rightarrow> delivery list"
  tx :: "int \<Rightarrow> acceptance list"
  trace :: "event list"

definition emit :: "event \<Rightarrow> world \<Rightarrow> world" where
  "emit e w = w\<lparr>trace := trace w @ [e]\<rparr>"

text \<open>
  \<^verbatim>\<open>ssize_t read(int fd, void *buf, size_t count)\<close>: the return value, the bytes
  stored in the buffer, and the world afterwards.
\<close>

definition sys_read :: "int \<Rightarrow> nat \<Rightarrow> world \<Rightarrow> (int \<times> string) \<times> world" where
  "sys_read fd count w =
     (case rx w fd of
        [] \<Rightarrow> ((0, []), w)
      | Segment bs # rest \<Rightarrow>
          ((int (length (take count bs)), take count bs),
           w\<lparr>rx := (rx w)(fd := (if drop count bs = [] then rest
                                  else Segment (drop count bs) # rest))\<rparr>)
      | Fin # rest \<Rightarrow> ((0, []), w)
      | Failed # rest \<Rightarrow> ((- 1, []), w\<lparr>rx := (rx w)(fd := rest)\<rparr>))"

text \<open>
  \<^verbatim>\<open>ssize_t send(int fd, const void *buf, size_t len, int flags)\<close>: the return value
  and the world afterwards. On a broken connection the call returns \<open>- 1\<close> when the flag
  \<^verbatim>\<open>MSG_NOSIGNAL\<close> (bit 14) is set, and otherwise the process gets SIGPIPE.
\<close>

definition next_send :: "int \<Rightarrow> world \<Rightarrow> acceptance" where
  "next_send fd w = (case tx w fd of [] \<Rightarrow> Accepted | a # rest \<Rightarrow> a)"

definition sys_send :: "int \<Rightarrow> string \<Rightarrow> int \<Rightarrow> world \<Rightarrow> (failure + int) \<times> world" where
  "sys_send fd msg flags w =
     (let w' = w\<lparr>tx := (tx w)(fd := tl (tx w fd))\<rparr>
      in case next_send fd w of
           Accepted \<Rightarrow> (Inr (int (length msg)), emit (Send fd msg) w')
         | Refused \<Rightarrow> (Inr (- 1), w')
         | Broken_pipe \<Rightarrow> (if bit flags 14 then (Inr (- 1), w') else (Inl Sigpipe, w')))"

text \<open>The messages accepted from \<^verbatim>\<open>send\<close> on a descriptor, and the number of its closes.\<close>

fun sent_on :: "int \<Rightarrow> event list \<Rightarrow> string list" where
  "sent_on fd [] = []"
| "sent_on fd (Send f msg # es) = (if f = fd then msg # sent_on fd es else sent_on fd es)"
| "sent_on fd (e # es) = sent_on fd es"

fun close_count :: "int \<Rightarrow> event list \<Rightarrow> nat" where
  "close_count fd [] = 0"
| "close_count fd (Close f # es) = (if f = fd then Suc (close_count fd es) else close_count fd es)"
| "close_count fd (e # es) = close_count fd es"

subsection \<open>read\_message and send\_message (server2.cpp, lines 106-127; client2.cpp, lines 73-92)\<close>

definition read_message :: "int \<Rightarrow> world \<Rightarrow> string \<times> world" where
  "read_message sock w =
     (let ((bytes_read, stored), w') = sys_read sock 1024 w;
          buffer = stored @ drop (length stored) (zero_buffer 1024)
      in if bytes_read > 0 then (take (nat bytes_read) buffer, w')
         else ([], w'))"

text \<open>
  \<open>send_message\<close> calls \<^verbatim>\<open>send\<close> with the flags 0 and does not look at the return
  value; when the call does not return, \<open>send_message\<close> does not either.
\<close>

definition send_message :: "int \<Rightarrow> string \<Rightarrow> world \<Rightarrow> (failure + unit) \<times> world" where
  "send_message sock msg w =
     (case sys_send sock msg 0 w of
        (Inl e, w') \<Rightarrow> (Inl e, w')
      | (Inr n, w') \<Rightarrow> (Inr (), w'))"

subsection \<open>handle\_client (server2.cpp, lines 130-162)\<close>

text \<open>
  The global constant \<^verbatim>\<open>SHARED_SECRET\<close> is passed explicitly; \<open>main\<close> passes
  \<^const>\<open>SHARED_SECRET\<close>. The states after step 1 and after step 2 are named, since
  statements about the digest that step 3 reads refer to them.
\<close>

definition greeted :: "int \<Rightarrow> world \<Rightarrow> world" where
  "greeted client_sock w =
     (let (hello, w1) = read_message client_sock w
      in emit (Cout (''Client: '' @ hello @ newline)) w1)"

definition challenge_issued :: "int \<Rightarrow> string \<Rightarrow> world \<Rightarrow> world" where
  "challenge_issued client_sock challenge w =
     snd (send_message client_sock challenge (greeted client_sock w))"

definition handle_client ::
  "rand_bytes \<Rightarrow> hmac \<Rightarrow> string \<Rightarrow> int \<Rightarrow> world \<Rightarrow> (failure + unit) \<times> world" where
  "handle_client RAND_bytes HMAC secret client_sock w =
     (let w2 = greeted client_sock w
      in case generate_challenge_default RAND_bytes of
           Inl e \<Rightarrow> (Inl e, w2)
         | Inr challenge \<Rightarrow>
             (case send_message client_sock challenge w2 of
                (Inl e, w3) \<Rightarrow> (Inl e, w3)
              | (Inr sent, w3) \<Rightarrow>
                  (let (client_digest, w4) = read_message client_sock w3
                   in (case compute_hmac HMAC challenge secret of
                         Inl e \<Rightarrow> (Inl e, w4)
                       | Inr expected_digest \<Rightarrow>
                           (let response = (if client_digest = expected_digest
                                            then ''Authentication successful. Welcome!''
                                            else ''Authentication failed.'')
                            in (case send_message client_sock response w4 of
                                  (Inl e, w5) \<Rightarrow> (Inl e, w5)
                                | (Inr sent, w5) \<Rightarrow>
                                    (Inr (), emit (Close client_sock) w5)))))))"

subsection \<open>client\_interaction (client2.cpp, lines 95-113)\<close>

text \<open>The Prover. Its \<open>compute_hmac\<close>, \<open>read_message\<close> and \<open>send_message\<close> are the
  Verifier's, word for word.\<close>

definition client_interaction ::
  "hmac \<Rightarrow> string \<Rightarrow> int \<Rightarrow> world \<Rightarrow> (failure + unit) \<times> world" where
  "client_interaction HMAC secret sock w =
     (case send_message sock ''hello'' w of
        (Inl e, w1) \<Rightarrow> (Inl e, w1)
      | (Inr sent, w1) \<Rightarrow>
          (let (challenge, w2) = read_message sock w1;
               w3 = emit (Cout (''Received challenge: '' @ challenge @ newline)) w2
           in (case compute_hmac HMAC challenge secret of
                 Inl e \<Rightarrow> (Inl e, w3)
               | Inr digest \<Rightarrow>
                   (case send_message sock digest w3 of
                      (Inl e, w4) \<Rightarrow> (Inl e, w4)
                    | (Inr sent, w4) \<Rightarrow>
                        (let (response, w5) = read_message sock w4
                         in (Inr (), emit (Cout (''Server: '' @ response @ newline)) w5))))))"

subsection \<open>create\_server\_socket and main (server2.cpp, lines 75-103 and 165-195)\<close>

text \<open>
  The return values of \<^verbatim>\<open>socket\<close>, \<^verbatim>\<open>bind\<close>, \<^verbatim>\<open>listen\<close> and \<^verbatim>\<open>accept\<close> are
  inputs. \<open>main_try\<close> is the \<^verbatim>\<open>try\<close> block of \<open>main\<close>; the \<^verbatim>\<open>catch\<close> clause
  handles \<^verbatim>\<open>std::exception\<close> only and writes \<^verbatim>\<open>e.what()\<close> to \<^verbatim>\<open>std::cerr\<close>. A
  process that is killed or has run out of bounds does not come back to \<open>main\<close>.
\<close>

record syscalls =
  socket_ret :: int
  bind_ret :: int
  listen_ret :: int
  accept_ret :: int

definition create_server_socket :: "syscalls \<Rightarrow> failure + int" where
  "create_server_socket sys =
     (let sockfd = socket_ret sys
      in if sockfd < 0 then Inl (Runtime_error ''Socket creation failed'')
         else if bind_ret sys < 0 then Inl (Runtime_error ''Bind failed'')
         else if listen_ret sys < 0 then Inl (Runtime_error ''Listen failed'')
         else Inr sockfd)"

definition main_try :: "rand_bytes \<Rightarrow> hmac \<Rightarrow> syscalls \<Rightarrow> world \<Rightarrow> (failure + unit) \<times> world" where
  "main_try RAND_bytes HMAC sys w =
     (case create_server_socket sys of
        Inl e \<Rightarrow> (Inl e, w)
      | Inr server_sock \<Rightarrow>
          (let w1 = emit (Cout (''Server listening on port 12345...'' @ newline)) w;
               client_sock = accept_ret sys
           in if client_sock < 0 then (Inl (Runtime_error ''Accept failed''), w1)
              else (case handle_client RAND_bytes HMAC SHARED_SECRET client_sock w1 of
                      (Inl e, w2) \<Rightarrow> (Inl e, w2)
                    | (Inr u, w2) \<Rightarrow> (Inr (), emit (Close server_sock) w2))))"

definition main :: "rand_bytes \<Rightarrow> hmac \<Rightarrow> syscalls \<Rightarrow> world \<Rightarrow> (failure + int) \<times> world" where
  "main RAND_bytes HMAC sys w =
     (case main_try RAND_bytes HMAC sys w of
        (Inl (Runtime_error msg), w') \<Rightarrow>
          (Inr 0, emit (Cerr (''Server error: '' @ msg @ newline)) w')
      | (Inl Out_of_bounds, w') \<Rightarrow> (Inl Out_of_bounds, w')
      | (Inl Sigpipe, w') \<Rightarrow> (Inl Sigpipe, w')
      | (Inr u, w') \<Rightarrow> (Inr 0, w'))"

subsection \<open>The transport between two endpoints\<close>

text \<open>
  The bytes a program has put on the wire of a descriptor are the concatenation of what
  the kernel accepted from its \<^verbatim>\<open>send\<close> calls: a stream transport keeps no message
  boundaries. The transport may
  hand the stream to the reader in pieces; \<open>fragments ns bs\<close> cuts \<open>bs\<close> into segments
  of the sizes \<open>ns\<close>, and what is left after them is one last segment.
\<close>

definition transmitted :: "int \<Rightarrow> world \<Rightarrow> string" where
  "transmitted fd w = concat (sent_on fd (trace w))"

fun fragments :: "nat list \<Rightarrow> string \<Rightarrow> delivery list" where
  "fragments [] bs = (if bs = [] then [] else [Segment bs])"
| "fragments (n # ns) bs = (if bs = [] then [] else Segment (take n bs) # fragments ns (drop n bs))"

text \<open>
  \<open>quiet\<close> is the world in which nothing has arrived, nothing has been done and every
  send is accepted; \<open>arriving fd ds w\<close> queues the deliveries \<open>ds\<close> on \<open>fd\<close>;
  \<open>answering fd as w\<close> fixes what becomes of the sends on \<open>fd\<close>; \<open>delivered ns s ws r wr\<close>
  carries what the sender has put on its descriptor \<open>s\<close> in the world \<open>ws\<close> to the
  descriptor \<open>r\<close> of the receiver's world \<open>wr\<close>, cut into the pieces \<open>ns\<close>.
\<close>

definition quiet :: world where
  "quiet = \<lparr>rx = (\<lambda>fd. []), tx = (\<lambda>fd. []), trace = []\<rparr>"

definition arriving :: "int \<Rightarrow> delivery list \<Rightarrow> world \<Rightarrow> world" where
  "arriving fd ds w = w\<lparr>rx := (rx w)(fd := ds)\<rparr>"

definition answering :: "int \<Rightarrow> acceptance list \<Rightarrow> world \<Rightarrow> world" where
  "answering fd as w = w\<lparr>tx := (tx w)(fd := as)\<rparr>"

definition delivered :: "nat list \<Rightarrow> int \<Rightarrow> world \<Rightarrow> int \<Rightarrow> world \<Rightarrow> world" where
  "delivered ns s ws r wr = arriving r (fragments ns (transmitted s ws)) wr"

subsection \<open>The wire format of the specification\<close>

text \<open>
  The specification's Message is a 4-byte big-endian length followed by that many bytes.
  These two definitions follow the specification, not the source; they are what the
  source's \<open>send_message\<close> and \<open>read_message\<close> are compared with.
\<close>

definition spec_be32 :: "nat \<Rightarrow> string" where
  "spec_be32 n = [char_of (n div 16777216), char_of (n div 65536), char_of (n div 256), char_of n]"

definition spec_frame :: "string \<Rightarrow> string" where
  "spec_frame B = spec_be32 (length B) @ B"

definition spec_declared_length :: "string \<Rightarrow> nat" where
  "spec_declared_length bs =
     of_char (bs ! 0) * 16777216 + of_char (bs ! 1) * 65536 + of_char (bs ! 2) * 256
       + of_char (bs ! 3)"

subsection \<open>Sample environments\<close>

text \<open>
  Concrete stand-ins for the environment, on which the theorems below are instantiated:
  a random source that succeeds and stores \<open>num\<close> bytes, one that reports failure, one that
  reports that it is not supported; a keyed function in the place of HMAC-SHA1 whose
  buffer holds the key followed by the data and padding, and one that returns a null
  pointer; system calls that succeed with the listening socket 3 and the client socket 4.
\<close>

definition sample_rand :: rand_bytes where
  "sample_rand num = (1, replicate (nat num) (CHR ''r''))"

definition failing_rand :: rand_bytes where
  "failing_rand num = (0, [])"

definition unsupported_rand :: rand_bytes where
  "unsupported_rand num = (- 1, [])"

definition sample_hmac :: hmac where
  "sample_hmac key key_len data data_len =
     Some (\<lambda>i. if i < length (key @ data) then (key @ data) ! i else CHR ''='')"

definition null_hmac :: hmac where
  "null_hmac key key_len data data_len = None"

definition sample_sys :: syscalls where
  "sample_sys = \<lparr>socket_ret = 3, bind_ret = 0, listen_ret = 0, accept_ret = 4\<rparr>"

definition sample_challenge :: string where
  "sample_challenge = ''rrrrrrrrrrrrrrrr''"

definition sample_digest :: string where
  "sample_digest = ''pass123rrrrrrrrrrrrr''"

definition oversized :: string where
  "oversized = [CHR 0xFF, CHR 0xFF, CHR 0xFF, CHR 0xFF, CHR ''x'']"

definition picky_hmac :: hmac where
  "picky_hmac key key_len data data_len =
     (if data = sample_challenge then sample_hmac key key_len data data_len else None)"

text \<open>
  Sessions on the client socket 4: the peer greets and then sends the digest of the sample
  challenge under the shared secret, or the digest under the secret \<^verbatim>\<open>wrong\<close>.
\<close>

definition honest_session :: world where
  "honest_session = arriving 4 [Segment ''hello'', Segment sample_digest] quiet"

definition wrong_session :: world where
  "wrong_session = arriving 4 [Segment ''hello'', Segment ''wrongrrrrrrrrrrrrrrr''] quiet"

text \<open>
  A peer that greets and closes: the challenge is still accepted, the read that follows
  finds the end of the stream, and the connection is broken when the verdict is sent.
\<close>

definition closed_peer_session :: world where
  "closed_peer_session =
     answering 4 [Accepted, Broken_pipe] (arriving 4 [Segment ''hello'', Fin] quiet)"

text \<open>
  The Prover on its socket 5, holding the shared secret, to which the sample challenge
  comes whole; and the world in which it ends.
\<close>

definition prover_start :: world where
  "prover_start = arriving 5 [Segment sample_challenge] quiet"

definition prover_done :: world where
  "prover_done = snd (client_interaction sample_hmac SHARED_SECRET 5 prover_start)"

section \<open>Properties\<close>

subsection \<open>Auxiliary facts\<close>

lemma static_cast_int_small: "n < 2 ^ 31 \<Longrightarrow> static_cast_int n = int n"
  unfolding static_cast_int_def
  by (simp add: signed_of_nat signed_take_bit_int_eq_self)

lemma trace_emit: "trace (emit e w) = trace w @ [e]"
  by (simp add: emit_def)

lemma rx_emit: "rx (emit e w) = rx w"
  by (simp add: emit_def)

lemma tx_emit: "tx (emit e w) = tx w"
  by (simp add: emit_def)

lemma next_send_cong: "tx w fd = tx w' fd \<Longrightarrow> next_send fd w = next_send fd w'"
  by (simp add: next_send_def)

lemma trace_sys_read: "trace (snd (sys_read fd count w)) = trace w"
  by (simp add: sys_read_def split: list.splits delivery.splits)

lemma tx_sys_read: "tx (snd (sys_read fd count w)) = tx w"
  by (simp add: sys_read_def split: list.splits delivery.splits)

lemma sys_read_le: "length (snd (fst (sys_read fd count w))) \<le> count"
  by (simp add: sys_read_def split: list.splits delivery.splits)

lemma sys_read_ret:
  "fst (fst (sys_read fd count w)) = int (length (snd (fst (sys_read fd count w))))
   \<or> fst (fst (sys_read fd count w)) = - 1 \<and> snd (fst (sys_read fd count w)) = []"
  by (simp add: sys_read_def split: list.splits delivery.splits)

lemma read_message_eq:
  "read_message sock w =
     (if 0 < fst (fst (sys_read sock 1024 w)) then snd (fst (sys_read sock 1024 w)) else [],
      snd (sys_read sock 1024 w))"
proof -
  obtain n stored w' where r: "sys_read sock 1024 w = ((n, stored), w')"
    by (metis surj_pair)
  have le: "length stored \<le> 1024"
    using sys_read_le [of sock 1024 w] by (simp add: r)
  have ret: "n = int (length stored) \<or> n = - 1 \<and> stored = []"
    using sys_read_ret [of sock 1024 w] by (simp add: r)
  show ?thesis
    using le ret by (auto simp: read_message_def r zero_buffer_def)
qed

lemma trace_read_message: "trace (snd (read_message sock w)) = trace w"
  by (simp add: read_message_eq trace_sys_read)

lemma tx_read_message: "tx (snd (read_message sock w)) = tx w"
  by (simp add: read_message_eq tx_sys_read)

lemma next_send_read_message: "next_send fd (snd (read_message sock w)) = next_send fd w"
  by (rule next_send_cong) (simp add: tx_read_message)

lemma length_read_message: "length (fst (read_message sock w)) \<le> 1024"
  using sys_read_le [of sock 1024 w] by (simp add: read_message_eq)

lemma read_message_Segment:
  "rx w sock = Segment bs # rest \<Longrightarrow> fst (read_message sock w) = take 1024 bs"
  by (simp add: read_message_eq sys_read_def)

lemma read_message_whole:
  "rx w sock = Segment bs # rest \<Longrightarrow> bs \<noteq> [] \<Longrightarrow> length bs \<le> 1024 \<Longrightarrow>
   read_message sock w = (bs, w\<lparr>rx := (rx w)(sock := rest)\<rparr>)"
  by (simp add: read_message_eq sys_read_def)

lemma fst_read_message_cong:
  "rx w sock = rx w' sock \<Longrightarrow> fst (read_message sock w) = fst (read_message sock w')"
  by (simp add: read_message_eq sys_read_def split: list.splits delivery.splits)

lemma fst_read_message_emit: "fst (read_message sock (emit e w)) = fst (read_message sock w)"
  by (rule fst_read_message_cong) (simp add: rx_emit)

text \<open>What one \<open>send_message\<close> does.\<close>

lemma fst_send_message:
  "fst (send_message sock msg w) = (if next_send sock w = Broken_pipe then Inl Sigpipe else Inr ())"
  by (simp add: send_message_def sys_send_def Let_def split: acceptance.splits)

lemma trace_send_message:
  "trace (snd (send_message sock msg w)) =
     trace w @ (if next_send sock w = Accepted then [Send sock msg] else [])"
  by (simp add: send_message_def sys_send_def Let_def emit_def split: acceptance.splits)

lemma rx_send_message: "rx (snd (send_message sock msg w)) = rx w"
  by (simp add: send_message_def sys_send_def Let_def emit_def split: acceptance.splits)

lemma tx_send_message: "tx (snd (send_message sock msg w)) = (tx w)(sock := tl (tx w sock))"
  by (simp add: send_message_def sys_send_def Let_def emit_def split: acceptance.splits)

lemma send_message_cases:
  "send_message sock msg w =
     (if next_send sock w = Broken_pipe then Inl Sigpipe else Inr (), snd (send_message sock msg w))"
  by (metis fst_send_message prod.collapse)

lemma fst_read_message_send:
  "fst (read_message r (snd (send_message sock msg w))) = fst (read_message r w)"
  by (rule fst_read_message_cong) (simp add: rx_send_message)

lemma case_prod_sum:
  "(case p of (Inl e, w) \<Rightarrow> f e w | (Inr u, w) \<Rightarrow> g u w) =
     (case fst p of Inl e \<Rightarrow> f e (snd p) | Inr u \<Rightarrow> g u (snd p))"
  by (cases p) (simp split: sum.splits)

text \<open>The named states of \<open>handle_client\<close>.\<close>

lemma trace_greeted:
  "trace (greeted sock w) = trace w @ [Cout (''Client: '' @ fst (read_message sock w) @ newline)]"
  by (simp add: greeted_def split_beta trace_emit trace_read_message)

lemma tx_greeted: "tx (greeted sock w) = tx w"
  by (simp add: greeted_def split_beta tx_emit tx_read_message)

lemma rx_greeted: "rx (greeted sock w) = rx (snd (read_message sock w))"
  by (simp add: greeted_def split_beta rx_emit)

lemma next_send_greeted: "next_send fd (greeted sock w) = next_send fd w"
  by (rule next_send_cong) (simp add: tx_greeted)

lemma trace_challenge_issued:
  "trace (challenge_issued sock C w) =
     trace w @ Cout (''Client: '' @ fst (read_message sock w) @ newline)
       # (if next_send sock w = Accepted then [Send sock C] else [])"
  by (simp add: challenge_issued_def trace_send_message trace_greeted next_send_greeted)

lemma rx_challenge_issued:
  "rx (challenge_issued sock C w) = rx (snd (read_message sock w))"
  by (simp add: challenge_issued_def rx_send_message rx_greeted)

lemma tx_challenge_issued:
  "tx (challenge_issued sock C w) = (tx w)(sock := tl (tx w sock))"
  by (simp add: challenge_issued_def tx_send_message tx_greeted)

text \<open>The ways out of \<open>handle_client\<close>, with the world each one leaves.\<close>

lemma handle_client_eq:
  "handle_client RAND_bytes HMAC secret sock w =
     (case generate_challenge_default RAND_bytes of
        Inl e \<Rightarrow> (Inl e, greeted sock w)
      | Inr C \<Rightarrow>
          if next_send sock w = Broken_pipe then (Inl Sigpipe, challenge_issued sock C w)
          else
          (case compute_hmac HMAC C secret of
             Inl e \<Rightarrow> (Inl e, snd (read_message sock (challenge_issued sock C w)))
           | Inr E \<Rightarrow>
               (if next_send sock (challenge_issued sock C w) = Broken_pipe then Inl Sigpipe
                else Inr (),
                (if next_send sock (challenge_issued sock C w) = Broken_pipe then id
                 else emit (Close sock))
                  (snd (send_message sock
                     (if fst (read_message sock (challenge_issued sock C w)) = E
                      then ''Authentication successful. Welcome!''
                      else ''Authentication failed.'')
                     (snd (read_message sock (challenge_issued sock C w))))))))"
  by (simp add: handle_client_def Let_def split_beta case_prod_sum fst_send_message
        next_send_greeted next_send_read_message challenge_issued_def
      split: sum.splits)

lemma tx_arriving: "tx (arriving fd ds w) = tx w"
  by (simp add: arriving_def)

lemma next_send_arriving: "next_send sock (arriving fd ds w) = next_send sock w"
  by (rule next_send_cong) (simp add: tx_arriving)

lemma next_send_free: "tx w sock = [] \<Longrightarrow> next_send sock w = Accepted"
  by (simp add: next_send_def)

lemma tx_quiet: "tx quiet fd = []"
  by (simp add: quiet_def)

lemma tx_challenge_issued_free: "tx w sock = [] \<Longrightarrow> tx (challenge_issued sock C w) sock = []"
  by (simp add: tx_challenge_issued)

lemma read_arriving_first:
  "bs \<noteq> [] \<Longrightarrow> length bs \<le> 1024 \<Longrightarrow>
   read_message sock (arriving sock (Segment bs # rest) w) = (bs, arriving sock rest w)"
  by (simp add: read_message_whole [where rest = rest] arriving_def)

lemma rx_after_first:
  "bs \<noteq> [] \<Longrightarrow> length bs \<le> 1024 \<Longrightarrow>
   rx (challenge_issued sock C (arriving sock (Segment bs # rest) w)) sock = rest"
  by (simp add: rx_challenge_issued read_arriving_first) (simp add: arriving_def)

lemma sample_gen: "generate_challenge_default sample_rand = Inr sample_challenge"
  by code_simp

lemma upt_20: "[0..<20] = [0, 1, 2, 3, 4, 5, 6, 7, 8, 9, 10, 11, 12, 13, 14, 15, 16, 17, 18, 19]"
  by (simp add: upt_rec)

lemma sample_mac: "compute_hmac sample_hmac sample_challenge SHARED_SECRET = Inr sample_digest"
  by (simp add: compute_hmac_def sample_hmac_def sample_challenge_def SHARED_SECRET_def
      sample_digest_def upt_20)

lemma honest_session_free: "tx honest_session 4 = []"
  by (simp add: honest_session_def tx_arriving tx_quiet)

lemma wrong_session_free: "tx wrong_session 4 = []"
  by (simp add: wrong_session_def tx_arriving tx_quiet)

lemma honest_session_digest:
  "fst (read_message 4 (challenge_issued 4 sample_challenge honest_session)) = sample_digest"
  by (simp add: honest_session_def sample_digest_def
        read_message_Segment [where rest = "[]"] rx_after_first)

lemma wrong_session_digest:
  "fst (read_message 4 (challenge_issued 4 sample_challenge wrong_session))
     = ''wrongrrrrrrrrrrrrrrr''"
  by (simp add: wrong_session_def read_message_Segment [where rest = "[]"] rx_after_first)

lemma honest_hello: "fst (read_message 4 honest_session) = ''hello''"
  by (simp add: honest_session_def read_arriving_first)

lemma honest_session_trace:
  "trace (challenge_issued 4 sample_challenge honest_session) =
     [Cout (''Client: hello'' @ newline), Send 4 sample_challenge]"
  by (simp add: trace_challenge_issued honest_hello next_send_free honest_session_free)
     (simp add: honest_session_def arriving_def quiet_def)

lemma wrong_hello: "fst (read_message 4 wrong_session) = ''hello''"
  by (simp add: wrong_session_def read_arriving_first)

lemma wrong_session_trace:
  "trace (challenge_issued 4 sample_challenge wrong_session) =
     [Cout (''Client: hello'' @ newline), Send 4 sample_challenge]"
  by (simp add: trace_challenge_issued wrong_hello next_send_free wrong_session_free)
     (simp add: wrong_session_def arriving_def quiet_def)

lemma handle_client_verdict:
  assumes "generate_challenge_default RAND_bytes = Inr C"
    and "compute_hmac HMAC C S = Inr E"
    and "next_send sock w \<noteq> Broken_pipe"
    and "next_send sock (challenge_issued sock C w) = Accepted"
  shows "fst (handle_client RAND_bytes HMAC S sock w) = Inr ()"
    and "trace (snd (handle_client RAND_bytes HMAC S sock w)) =
           trace (challenge_issued sock C w)
             @ [Send sock (if fst (read_message sock (challenge_issued sock C w)) = E
                           then ''Authentication successful. Welcome!''
                           else ''Authentication failed.''),
                Close sock]"
  using assms
  by (simp_all add: handle_client_eq trace_emit trace_send_message trace_read_message
        next_send_read_message)

text \<open>A send on a broken connection ends the session there: no verdict, no close.\<close>

lemma handle_client_broken_pipe:
  assumes "generate_challenge_default RAND_bytes = Inr C"
    and "compute_hmac HMAC C S = Inr E"
    and "next_send sock w \<noteq> Broken_pipe"
    and "next_send sock (challenge_issued sock C w) = Broken_pipe"
  shows "fst (handle_client RAND_bytes HMAC S sock w) = Inl Sigpipe"
    and "trace (snd (handle_client RAND_bytes HMAC S sock w)) = trace (challenge_issued sock C w)"
  using assms
  by (simp_all add: handle_client_eq trace_send_message trace_read_message
        next_send_read_message)

lemma sent_on_append: "sent_on fd (es @ es') = sent_on fd es @ sent_on fd es'"
  by (induction fd es rule: sent_on.induct) simp_all

lemma close_count_append: "close_count fd (es @ es') = close_count fd es + close_count fd es'"
  by (induction fd es rule: close_count.induct) simp_all

lemma compute_hmac_length: "compute_hmac HMAC data key = Inr tag \<Longrightarrow> length tag = 20"
  by (auto simp: compute_hmac_def split: option.splits)

lemma client_interaction_sends:
  assumes "tx w sock = []" and "compute_hmac HMAC (fst (read_message sock w)) S = Inr T"
  shows "fst (client_interaction HMAC S sock w) = Inr () \<and>
         sent_on sock (trace (snd (client_interaction HMAC S sock w)))
           = sent_on sock (trace w) @ [''hello'', T]"
proof -
  let ?w1 = "snd (send_message sock ''hello'' w)"
  let ?w3 = "emit (Cout (''Received challenge: '' @ fst (read_message sock w) @ newline))
               (snd (read_message sock ?w1))"
  have n1: "next_send sock w = Accepted"
    using assms(1) by (rule next_send_free)
  have "tx ?w3 sock = []"
    using assms(1) by (simp add: tx_emit tx_read_message tx_send_message)
  then have n3: "next_send sock ?w3 = Accepted"
    by (rule next_send_free)
  show ?thesis
    using assms(2) n1 n3
    by (simp add: client_interaction_def Let_def split_beta case_prod_sum fst_send_message
          fst_read_message_send trace_emit trace_read_message trace_send_message sent_on_append)
qed

lemma transmitted_quiet: "transmitted s quiet = []"
  by (simp add: transmitted_def quiet_def)

lemma prover_whole_delivery:
  assumes gen: "generate_challenge_default RAND_bytes = Inr C"
    and mac: "compute_hmac HMAC C S = Inr T"
    and got: "fst (read_message c wc) = C"
    and fresh: "sent_on c (trace wc) = []"
    and free: "tx wc c = []"
    and whole: "fragments ns (''hello'' @ T) = [Segment ''hello'', Segment T]"
  shows "sent_on s (trace (snd (handle_client RAND_bytes HMAC S s
            (delivered ns c (snd (client_interaction HMAC S c wc)) s quiet)))) =
         [C, ''Authentication successful. Welcome!'']"
proof -
  let ?ws = "delivered ns c (snd (client_interaction HMAC S c wc)) s quiet"
  have len: "length T = 20"
    using mac by (rule compute_hmac_length)
  have "transmitted c (snd (client_interaction HMAC S c wc)) = ''hello'' @ T"
    using client_interaction_sends [of wc c HMAC S T] mac got fresh free
    by (simp add: transmitted_def)
  then have ws: "?ws = arriving s [Segment ''hello'', Segment T] quiet"
    using whole by (simp add: delivered_def)
  have rd: "fst (read_message s (challenge_issued s C ?ws)) = T"
    using len by (simp add: ws read_message_Segment [where rest = "[]"] rx_after_first)
  have tx0: "tx ?ws s = []"
    by (simp add: ws tx_arriving tx_quiet)
  have n1: "next_send s ?ws \<noteq> Broken_pipe"
    by (simp add: next_send_free tx0)
  have n2: "next_send s (challenge_issued s C ?ws) = Accepted"
    by (simp add: next_send_free tx_challenge_issued_free tx0)
  have "sent_on s (trace ?ws) = []"
    unfolding ws by (simp add: arriving_def quiet_def)
  then show ?thesis
    using handle_client_verdict(2) [OF gen mac n1 n2] rd
    by (simp add: trace_challenge_issued sent_on_append next_send_free tx0)
qed

subsection \<open>The sample environments, evaluated\<close>

lemma prover_start_free: "tx prover_start 5 = []"
  by (simp add: prover_start_def tx_arriving tx_quiet)

lemma prover_start_fresh: "sent_on 5 (trace prover_start) = []"
  by (simp add: prover_start_def arriving_def quiet_def)

lemma prover_start_challenge: "fst (read_message 5 prover_start) = sample_challenge"
  by (simp add: prover_start_def read_arriving_first sample_challenge_def)

lemma prover_done_sends:
  "fst (client_interaction sample_hmac SHARED_SECRET 5 prover_start) = Inr () \<and>
   sent_on 5 (trace prover_done) = [''hello'', sample_digest]"
  using client_interaction_sends [of prover_start 5 sample_hmac SHARED_SECRET sample_digest]
  by (simp add: prover_done_def prover_start_free prover_start_fresh prover_start_challenge
        sample_mac)

lemma prover_done_wire: "transmitted 5 prover_done = ''hello'' @ sample_digest"
  by (simp add: transmitted_def prover_done_sends)

lemma whole_5_20:
  "fragments [5, 20] (''hello'' @ sample_digest) = [Segment ''hello'', Segment sample_digest]"
  by (simp add: sample_digest_def)

lemma split_5_10:
  "fragments [5, 10] (''hello'' @ sample_digest) =
     [Segment ''hello'', Segment ''pass123rrr'', Segment ''rrrrrrrrrr'']"
  by (simp add: sample_digest_def)

lemma closed_peer_hello: "fst (read_message 4 closed_peer_session) = ''hello''"
  by (simp add: closed_peer_session_def answering_def arriving_def quiet_def
        read_message_Segment [where rest = "[Fin]"])

lemma closed_peer_tx: "tx closed_peer_session 4 = [Accepted, Broken_pipe]"
  by (simp add: closed_peer_session_def answering_def)

lemma closed_peer_digest:
  "fst (read_message 4 (challenge_issued 4 sample_challenge closed_peer_session)) = []"
  by (simp add: read_message_eq sys_read_def rx_challenge_issued closed_peer_session_def
        answering_def arriving_def quiet_def)

lemma closed_peer_trace:
  "trace (challenge_issued 4 sample_challenge closed_peer_session) =
     [Cout (''Client: hello'' @ newline), Send 4 sample_challenge]"
  by (simp add: trace_challenge_issued closed_peer_hello next_send_def closed_peer_tx)
     (simp add: closed_peer_session_def answering_def arriving_def quiet_def)

subsection \<open>The verdict of the Verifier\<close>

text \<open>
  Claim C1, as stated, does not hold. The claim ends: so a Prover holding the same secret
  is always Authenticated. The code: the Prover holds the shared secret, reads the
  challenge whole, and sends its greeting and the digest that \<open>compute_hmac\<close> gives for
  the challenge; the transport hands the 20 bytes of the digest to the Verifier in two
  pieces; the one read of the Verifier returns the first piece, the comparison fails, and
  the Verifier sends the failure verdict.
\<close>

theorem honest_prover_split_digest_counterexample:
  "fst (client_interaction sample_hmac SHARED_SECRET 5 prover_start) = Inr () \<and>
   sent_on 5 (trace prover_done) = [''hello'', sample_digest] \<and>
   compute_hmac sample_hmac sample_challenge SHARED_SECRET = Inr sample_digest \<and>
   sent_on 4 (trace (snd (handle_client sample_rand sample_hmac SHARED_SECRET 4
                            (delivered [5, 10] 5 prover_done 4 quiet)))) =
     [sample_challenge, ''Authentication failed.'']"
proof -
  let ?ws = "delivered [5, 10] 5 prover_done 4 quiet"
  have ws: "?ws = arriving 4 [Segment ''hello'', Segment ''pass123rrr'', Segment ''rrrrrrrrrr'']
                    quiet"
    by (simp only: delivered_def prover_done_wire split_5_10)
  have rd: "fst (read_message 4 (challenge_issued 4 sample_challenge ?ws)) = ''pass123rrr''"
    by (simp add: ws read_message_Segment [where rest = "[Segment ''rrrrrrrrrr'']"]
          rx_after_first)
  have tx0: "tx ?ws 4 = []"
    by (simp add: ws tx_arriving tx_quiet)
  have n1: "next_send 4 ?ws \<noteq> Broken_pipe"
    by (simp add: next_send_free tx0)
  have n2: "next_send 4 (challenge_issued 4 sample_challenge ?ws) = Accepted"
    by (simp add: next_send_free tx_challenge_issued_free tx0)
  have s0: "sent_on 4 (trace ?ws) = []"
    unfolding ws by (simp add: arriving_def quiet_def)
  have "sent_on 4 (trace (snd (handle_client sample_rand sample_hmac SHARED_SECRET 4 ?ws))) =
          [sample_challenge, ''Authentication failed.'']"
    using handle_client_verdict(2) [OF sample_gen sample_mac n1 n2] s0
    by (simp add: rd sample_digest_def trace_challenge_issued sent_on_append next_send_free tx0)
  then show ?thesis
    using prover_done_sends sample_mac by simp
qed

text \<open>
  Claim C1, amended. For every secret \<open>S\<close> and every challenge \<open>C\<close> that the session
  issues, with \<open>T\<close> the tag that \<open>compute_hmac\<close> gives for them: when the send of the
  challenge returns, the digest that \<open>handle_client\<close> reads in step 3 is \<open>T\<close>, and the
  kernel accepts the verdict, then the comparison succeeds: the session ends without an
  exception, and what it does after issuing the challenge is to send the success verdict
  and close the socket. A Prover holding the same secret is authenticated when each
  message arrives whole in one read and every send is accepted: the Prover reads \<open>C\<close>
  whole, and its greeting and its digest reach the Verifier as two segments.
\<close>

theorem handle_client_accepts_computed_tag:
  assumes "generate_challenge_default RAND_bytes = Inr C"
    and "compute_hmac HMAC C S = Inr T"
  shows "(next_send sock w \<noteq> Broken_pipe \<longrightarrow>
          fst (read_message sock (challenge_issued sock C w)) = T \<longrightarrow>
          next_send sock (challenge_issued sock C w) = Accepted \<longrightarrow>
            fst (handle_client RAND_bytes HMAC S sock w) = Inr () \<and>
            trace (snd (handle_client RAND_bytes HMAC S sock w)) =
              trace (challenge_issued sock C w)
                @ [Send sock ''Authentication successful. Welcome!'', Close sock])
       \<and> (fst (read_message c wc) = C \<longrightarrow> sent_on c (trace wc) = [] \<longrightarrow> tx wc c = [] \<longrightarrow>
          fragments ns (''hello'' @ T) = [Segment ''hello'', Segment T] \<longrightarrow>
            sent_on s (trace (snd (handle_client RAND_bytes HMAC S s
               (delivered ns c (snd (client_interaction HMAC S c wc)) s quiet)))) =
            [C, ''Authentication successful. Welcome!''])"
  using handle_client_verdict [OF assms, of sock w] prover_whole_delivery [OF assms, of c wc ns s]
  by simp

theorem handle_client_accepts_computed_tag_witness:
  "generate_challenge_default sample_rand = Inr sample_challenge \<and>
   compute_hmac sample_hmac sample_challenge SHARED_SECRET = Inr sample_digest \<and>
   next_send 4 honest_session \<noteq> Broken_pipe \<and>
   fst (read_message 4 (challenge_issued 4 sample_challenge honest_session)) = sample_digest \<and>
   next_send 4 (challenge_issued 4 sample_challenge honest_session) = Accepted \<and>
   fst (handle_client sample_rand sample_hmac SHARED_SECRET 4 honest_session) = Inr () \<and>
   trace (snd (handle_client sample_rand sample_hmac SHARED_SECRET 4 honest_session)) =
     [Cout (''Client: hello'' @ newline), Send 4 sample_challenge,
      Send 4 ''Authentication successful. Welcome!'', Close 4] \<and>
   fst (read_message 5 prover_start) = sample_challenge \<and>
   sent_on 5 (trace prover_start) = [] \<and> tx prover_start 5 = [] \<and>
   fragments [5, 20] (''hello'' @ sample_digest) = [Segment ''hello'', Segment sample_digest] \<and>
   sent_on 4 (trace (snd (handle_client sample_rand sample_hmac SHARED_SECRET 4
                            (delivered [5, 20] 5 prover_done 4 quiet)))) =
     [sample_challenge, ''Authentication successful. Welcome!'']"
proof -
  have n1: "next_send 4 honest_session \<noteq> Broken_pipe"
    by (simp add: next_send_free honest_session_free)
  have n2: "next_send 4 (challenge_issued 4 sample_challenge honest_session) = Accepted"
    by (simp add: next_send_free tx_challenge_issued_free honest_session_free)
  show ?thesis
    using handle_client_accepts_computed_tag [OF sample_gen sample_mac,
            of 4 honest_session 5 prover_start "[5, 20]" 4]
      sample_gen sample_mac n1 n2 honest_session_digest honest_session_trace
      prover_start_challenge prover_start_fresh prover_start_free whole_5_20
    by (simp add: prover_done_def)
qed

text \<open>
  Claim C2, as stated, does not hold. The claim: for every received digest other than the
  computed tag, the Verifier sends the failure verdict and closes afterwards, never
  ending without a response. The code: the peer greets and closes; the read of step 3
  finds the end of the stream, and the empty digest differs from the tag; the connection
  is broken when \<open>handle_client\<close> sends the verdict, \<^verbatim>\<open>send\<close> is called with the
  flags 0, and the process is killed by SIGPIPE: no verdict is sent and the socket is not
  closed.
\<close>

theorem closed_peer_verdict_counterexample:
  "compute_hmac sample_hmac sample_challenge SHARED_SECRET = Inr sample_digest \<and>
   fst (read_message 4 (challenge_issued 4 sample_challenge closed_peer_session))
     \<noteq> sample_digest \<and>
   fst (handle_client sample_rand sample_hmac SHARED_SECRET 4 closed_peer_session)
     = Inl Sigpipe \<and>
   trace (snd (handle_client sample_rand sample_hmac SHARED_SECRET 4 closed_peer_session)) =
     [Cout (''Client: hello'' @ newline), Send 4 sample_challenge]"
proof -
  have n1: "next_send 4 closed_peer_session \<noteq> Broken_pipe"
    by (simp add: next_send_def closed_peer_tx)
  have n2: "next_send 4 (challenge_issued 4 sample_challenge closed_peer_session) = Broken_pipe"
    by (simp add: next_send_def tx_challenge_issued closed_peer_tx)
  show ?thesis
    using handle_client_broken_pipe [OF sample_gen sample_mac n1 n2]
    by (simp add: sample_mac closed_peer_digest closed_peer_trace sample_digest_def)
qed

text \<open>
  Claim C2, amended. For every secret \<open>S\<close>, challenge \<open>C\<close> and received digest other
  than the tag \<open>E\<close> that \<open>compute_hmac\<close> gives for \<open>C\<close> and \<open>S\<close>, the comparison
  fails and the verdict is the failure string; the mismatch is not an exception. When the
  send of the challenge has returned and the kernel accepts the verdict,
  \<open>handle_client\<close> returns normally, and after issuing the challenge it first sends the
  failure verdict to the peer and then closes the socket.
\<close>

theorem handle_client_rejects_other_tag:
  assumes "generate_challenge_default RAND_bytes = Inr C"
    and "compute_hmac HMAC C S = Inr E"
    and "fst (read_message sock (challenge_issued sock C w)) \<noteq> E"
    and "next_send sock w \<noteq> Broken_pipe"
    and "next_send sock (challenge_issued sock C w) = Accepted"
  shows "fst (handle_client RAND_bytes HMAC S sock w) = Inr () \<and>
         trace (snd (handle_client RAND_bytes HMAC S sock w)) =
           trace (challenge_issued sock C w)
             @ [Send sock ''Authentication failed.'', Close sock]"
  using handle_client_verdict [OF assms(1,2,4,5)] assms(3) by simp

theorem handle_client_rejects_other_tag_witness:
  "generate_challenge_default sample_rand = Inr sample_challenge \<and>
   compute_hmac sample_hmac sample_challenge SHARED_SECRET = Inr sample_digest \<and>
   fst (read_message 4 (challenge_issued 4 sample_challenge wrong_session)) \<noteq> sample_digest \<and>
   next_send 4 wrong_session \<noteq> Broken_pipe \<and>
   next_send 4 (challenge_issued 4 sample_challenge wrong_session) = Accepted \<and>
   fst (handle_client sample_rand sample_hmac SHARED_SECRET 4 wrong_session) = Inr () \<and>
   trace (snd (handle_client sample_rand sample_hmac SHARED_SECRET 4 wrong_session)) =
     [Cout (''Client: hello'' @ newline), Send 4 sample_challenge,
      Send 4 ''Authentication failed.'', Close 4]"
proof -
  have differs: "fst (read_message 4 (challenge_issued 4 sample_challenge wrong_session))
                   \<noteq> sample_digest"
    by (simp add: wrong_session_digest sample_digest_def)
  have n1: "next_send 4 wrong_session \<noteq> Broken_pipe"
    by (simp add: next_send_free wrong_session_free)
  have n2: "next_send 4 (challenge_issued 4 sample_challenge wrong_session) = Accepted"
    by (simp add: next_send_free tx_challenge_issued_free wrong_session_free)
  show ?thesis
    using handle_client_rejects_other_tag [OF sample_gen sample_mac differs n1 n2]
      sample_gen sample_mac differs n1 n2 wrong_session_trace
    by simp
qed

subsection \<open>The MAC engine\<close>

text \<open>
  Claim C10. For every data and key, \<open>compute_hmac\<close> either throws (the runtime error of
  a null result) or returns a string of exactly 20 bytes. It is deterministic: its result
  depends on nothing but the answer of the HMAC primitive for this key and this data, so
  two calls with the same data and key, answered alike, return the same 20 bytes.
\<close>

theorem compute_hmac_twenty_bytes_deterministic:
  "(compute_hmac HMAC data key = Inl (Runtime_error ''HMAC computation failed'')
      \<or> (\<exists>tag. compute_hmac HMAC data key = Inr tag \<and> length tag = 20))
   \<and> (HMAC' key (static_cast_int (length key)) data (length data)
         = HMAC key (static_cast_int (length key)) data (length data)
       \<longrightarrow> compute_hmac HMAC' data key = compute_hmac HMAC data key)"
  by (simp add: compute_hmac_def split: option.splits)

theorem compute_hmac_twenty_bytes_deterministic_witness:
  "picky_hmac SHARED_SECRET (static_cast_int (length SHARED_SECRET)) sample_challenge
       (length sample_challenge)
     = sample_hmac SHARED_SECRET (static_cast_int (length SHARED_SECRET)) sample_challenge
         (length sample_challenge) \<and>
   compute_hmac picky_hmac sample_challenge SHARED_SECRET
     = compute_hmac sample_hmac sample_challenge SHARED_SECRET \<and>
   compute_hmac sample_hmac sample_challenge SHARED_SECRET = Inr sample_digest \<and>
   length sample_digest = 20"
  using compute_hmac_twenty_bytes_deterministic
          [of sample_hmac sample_challenge SHARED_SECRET picky_hmac]
    sample_mac
  by (simp add: picky_hmac_def sample_digest_def)

subsection \<open>Reading from a closed or failed connection\<close>

text \<open>
  Claim C9. Whenever the \<^verbatim>\<open>read\<close> call returns zero (the peer has closed) or a negative
  count (an error), \<open>read_message\<close> returns the empty string; it has no exception to
  throw. The end of the stream, a failed call and a delivery of no bytes all give the same
  empty string, so the caller cannot tell them apart.
\<close>

theorem read_message_empty_on_close_or_error:
  "(fst (fst (sys_read sock 1024 w)) \<le> 0
      \<longrightarrow> read_message sock w = ([], snd (sys_read sock 1024 w)))
   \<and> (rx w sock = [] \<or> rx w sock = Fin # rest \<or> rx w sock = Failed # rest
        \<or> rx w sock = Segment [] # rest
      \<longrightarrow> fst (read_message sock w) = [])"
  by (auto simp: read_message_eq sys_read_def)

theorem read_message_empty_on_close_or_error_witness:
  "fst (fst (sys_read 4 1024 (arriving 4 [Failed] quiet))) = - 1 \<and>
   rx (arriving 4 [Failed] quiet) 4 = Failed # [] \<and>
   fst (read_message 4 (arriving 4 [Failed] quiet)) = [] \<and>
   fst (fst (sys_read 4 1024 (arriving 4 [Fin] quiet))) = 0 \<and>
   rx (arriving 4 [Fin] quiet) 4 = Fin # [] \<and>
   fst (read_message 4 (arriving 4 [Fin] quiet)) = []"
proof -
  have failed: "fst (fst (sys_read 4 1024 (arriving 4 [Failed] quiet))) = - 1"
    and closed: "fst (fst (sys_read 4 1024 (arriving 4 [Fin] quiet))) = 0"
    by (simp_all add: sys_read_def arriving_def)
  have queue: "rx (arriving 4 [Failed] quiet) 4 = Failed # []"
      "rx (arriving 4 [Fin] quiet) 4 = Fin # []"
    by (simp_all add: arriving_def)
  show ?thesis
    using read_message_empty_on_close_or_error [of 4 "arriving 4 [Failed] quiet" "[]"]
      read_message_empty_on_close_or_error [of 4 "arriving 4 [Fin] quiet" "[]"]
      failed closed queue
    by simp
qed

subsection \<open>Framing\<close>

lemma transmitted_send_message:
  "transmitted sock (snd (send_message sock msg w)) =
     transmitted sock w @ (if next_send sock w = Accepted then msg else [])"
  by (simp add: transmitted_def trace_send_message sent_on_append)

lemma transmitted_send_quiet: "transmitted s (snd (send_message s B quiet)) = B"
  by (simp add: transmitted_send_message transmitted_quiet next_send_free tx_quiet)

lemma read_message_fragments:
  "fst (read_message r (arriving r (fragments ns B) wr)) =
     take 1024 (case ns of [] \<Rightarrow> B | n # ns' \<Rightarrow> take n B)"
proof (cases "B = []")
  case True
  then show ?thesis
    by (cases ns) (simp_all add: read_message_eq sys_read_def arriving_def)
next
  case False
  then show ?thesis
    by (cases ns) (simp_all add: read_message_Segment arriving_def)
qed

text \<open>
  Claim C3, as stated, does not hold. The claim: every Message is sent as a 4-byte
  big-endian length followed by the payload, and receive after send of \<open>B\<close> returns
  exactly \<open>B\<close> even when the Transport splits it across several reads. The code: the two
  bytes \<^verbatim>\<open>ab\<close> given to \<open>send_message\<close> go on the wire as they are, which is not the
  frame of the specification; and when the transport delivers them one byte at a time,
  \<open>read_message\<close> returns the first byte alone.
\<close>

theorem framing_roundtrip_counterexample:
  "transmitted 5 (snd (send_message 5 ''ab'' quiet)) \<noteq> spec_frame ''ab'' \<and>
   fst (read_message 4 (delivered [1] 5 (snd (send_message 5 ''ab'' quiet)) 4 quiet)) \<noteq> ''ab''"
proof -
  have "fst (read_message 4 (arriving 4 (fragments [1] ''ab'') quiet)) = ''a''"
    unfolding read_message_fragments by simp
  then show ?thesis
    by (simp add: delivered_def transmitted_send_quiet spec_frame_def spec_be32_def)
qed

text \<open>
  Claim C3, amended. There is no length prefix and no read loop: \<open>send_message\<close> gives
  exactly the bytes of the message to one \<^verbatim>\<open>send\<close>, which adds them to the stream when
  the kernel accepts them, and \<open>read_message\<close> makes one \<^verbatim>\<open>read\<close> and returns what
  it stored, that is the first 1024 bytes at most of the first piece the transport
  delivers. So receive after send of \<open>B\<close> returns exactly \<open>B\<close> when \<open>B\<close> has at most
  1024 bytes and the transport delivers it whole in the first read.
\<close>

theorem raw_roundtrip_when_delivered_whole:
  "transmitted s (snd (send_message s B ws)) =
     transmitted s ws @ (if next_send s ws = Accepted then B else []) \<and>
   fst (read_message r (delivered ns s (snd (send_message s B quiet)) r wr)) =
     take 1024 (case ns of [] \<Rightarrow> B | n # ns' \<Rightarrow> take n B) \<and>
   (length B \<le> 1024 \<longrightarrow> ns = [] \<or> length B \<le> hd ns \<longrightarrow>
      fst (read_message r (delivered ns s (snd (send_message s B quiet)) r wr)) = B)"
proof -
  have "fst (read_message r (delivered ns s (snd (send_message s B quiet)) r wr)) =
          take 1024 (case ns of [] \<Rightarrow> B | n # ns' \<Rightarrow> take n B)"
    by (simp add: delivered_def read_message_fragments transmitted_send_quiet)
  then show ?thesis
    by (auto simp: transmitted_send_message split: list.splits)
qed

theorem raw_roundtrip_when_delivered_whole_witness:
  "length ''hello'' \<le> 1024 \<and> ([]::nat list) = [] \<and>
   fst (read_message 4 (delivered [] 5 (snd (send_message 5 ''hello'' quiet)) 4 quiet))
     = ''hello'' \<and>
   length ''hello'' \<le> hd [5::nat, 1] \<and>
   fst (read_message 4 (delivered [5, 1] 5 (snd (send_message 5 ''hello'' quiet)) 4 quiet))
     = ''hello'' \<and>
   next_send 5 quiet = Accepted \<and>
   transmitted 5 (snd (send_message 5 ''hello'' quiet)) = ''hello''"
  using raw_roundtrip_when_delivered_whole [of 5 "''hello''" quiet 4 "[]" quiet]
    raw_roundtrip_when_delivered_whole [of 5 "''hello''" quiet 4 "[5, 1]" quiet]
  by (simp add: next_send_free tx_quiet transmitted_quiet)

text \<open>
  Claim C6, as stated, does not hold. The claim: a Message whose declared length exceeds
  the configured maximum makes receive fail with a protocol error, and the Session goes to
  Error at once. The code: the first bytes to arrive declare, in the wire format of the
  specification, the length 4294967295, above any maximum a 4-byte field allows for;
  \<open>read_message\<close> returns them as a message like any other, and \<open>handle_client\<close> goes on
  to the end of the session without an exception.
\<close>

theorem oversized_length_counterexample:
  "spec_declared_length oversized = 4294967295 \<and>
   read_message 4 (arriving 4 [Segment oversized] quiet) = (oversized, arriving 4 [] quiet) \<and>
   fst (handle_client sample_rand sample_hmac SHARED_SECRET 4
          (arriving 4 [Segment oversized] quiet)) = Inr ()"
proof -
  let ?w = "arriving 4 [Segment oversized] quiet"
  have "spec_declared_length oversized = 4294967295"
    by (simp add: spec_declared_length_def oversized_def)
  moreover have "read_message 4 ?w = (oversized, arriving 4 [] quiet)"
    by (simp add: read_arriving_first oversized_def)
  moreover have "fst (handle_client sample_rand sample_hmac SHARED_SECRET 4 ?w) = Inr ()"
    by (simp add: handle_client_eq sample_gen sample_mac next_send_free tx_arriving tx_quiet
          tx_challenge_issued_free)
  ultimately show ?thesis by simp
qed

lemma handle_client_result:
  "fst (handle_client RAND_bytes HMAC S sock w) =
     (case generate_challenge_default RAND_bytes of
        Inl e \<Rightarrow> Inl e
      | Inr C \<Rightarrow>
          if next_send sock w = Broken_pipe then Inl Sigpipe
          else (case compute_hmac HMAC C S of
                  Inl e \<Rightarrow> Inl e
                | Inr E \<Rightarrow> if next_send sock (w\<lparr>tx := (tx w)(sock := tl (tx w sock))\<rparr>) = Broken_pipe
                           then Inl Sigpipe else Inr ()))"
  by (simp add: handle_client_eq next_send_def tx_challenge_issued split: sum.splits)

text \<open>
  Claim C6, amended. The code has no declared length and no configured maximum:
  \<open>read_message\<close> cannot fail, and whatever arrives, one call returns at most 1024 bytes,
  the size of its buffer; how \<open>handle_client\<close> ends does not depend on what arrives on
  the socket: two sessions whose sends the kernel treats alike end alike, whatever
  bytes each of them receives.
\<close>

theorem read_message_bounded_by_buffer:
  "length (fst (read_message sock w)) \<le> 1024 \<and>
   (tx w sock = tx w' sock \<longrightarrow>
      fst (handle_client RAND_bytes HMAC S sock w) = fst (handle_client RAND_bytes HMAC S sock w'))"
proof -
  have "fst (handle_client RAND_bytes HMAC S sock w) = fst (handle_client RAND_bytes HMAC S sock w')"
    if same: "tx w sock = tx w' sock"
  proof -
    have n1: "next_send sock w = next_send sock w'"
      using same by (rule next_send_cong)
    have n2: "next_send sock (w\<lparr>tx := (tx w)(sock := tl (tx w sock))\<rparr>) =
              next_send sock (w'\<lparr>tx := (tx w')(sock := tl (tx w' sock))\<rparr>)"
      by (simp add: next_send_def same)
    show ?thesis
      by (simp only: handle_client_result n1 n2)
  qed
  then show ?thesis
    by (simp add: length_read_message)
qed

theorem read_message_bounded_by_buffer_witness:
  "tx (arriving 4 [Segment oversized] quiet) 4 = tx honest_session 4 \<and>
   length (fst (read_message 4 (arriving 4 [Segment oversized] quiet))) \<le> 1024 \<and>
   fst (handle_client sample_rand sample_hmac SHARED_SECRET 4
          (arriving 4 [Segment oversized] quiet))
     = fst (handle_client sample_rand sample_hmac SHARED_SECRET 4 honest_session)"
proof -
  have same: "tx (arriving 4 [Segment oversized] quiet) 4 = tx honest_session 4"
    by (simp add: honest_session_free tx_arriving tx_quiet)
  show ?thesis
    using read_message_bounded_by_buffer
            [of 4 "arriving 4 [Segment oversized] quiet" honest_session
                sample_rand sample_hmac SHARED_SECRET] same
    by simp
qed

subsection \<open>The challenge generator\<close>

lemma generate_challenge_eq:
  "generate_challenge RAND_bytes len =
     (if 64 < length (snd (RAND_bytes (static_cast_int len))) then Inl Out_of_bounds
      else if fst (RAND_bytes (static_cast_int len)) = 0
        then Inl (Runtime_error ''Failed to generate random challenge'')
      else if 64 < len then Inl Out_of_bounds
      else Inr (take len (snd (RAND_bytes (static_cast_int len))
                  @ drop (length (snd (RAND_bytes (static_cast_int len)))) (zero_buffer 64))))"
  by (simp add: generate_challenge_def Let_def split_beta)

lemma sample_rand_16: "sample_rand (static_cast_int 16) = (1, sample_challenge)"
  by code_simp

lemma generate_challenge_unsupported:
  "generate_challenge unsupported_rand 16 = Inr (zero_buffer 16)"
  by (simp add: generate_challenge_eq unsupported_rand_def zero_buffer_def)

text \<open>
  Claim C5, as stated, does not hold. The claim: for every requested length the generator
  returns exactly that many bytes of the secure source. The code: for the length 65, with
  a source that succeeds and stores 65 bytes, the buffer of 64 bytes is overrun and no
  string of 65 bytes is returned.
\<close>

theorem generate_challenge_length_counterexample:
  "fst (sample_rand (static_cast_int 65)) = 1 \<and>
   length (snd (sample_rand (static_cast_int 65))) = 65 \<and>
   generate_challenge sample_rand 65 = Inl Out_of_bounds"
  by (simp add: generate_challenge_eq sample_rand_def static_cast_int_def)

text \<open>
  Claim C5, amended. For every requested length of at most 64: when \<^verbatim>\<open>RAND_bytes\<close>
  returns 1, having stored that many bytes, the generator returns exactly these bytes, and
  nothing from any other generator; when \<^verbatim>\<open>RAND_bytes\<close> returns 0, the generator throws
  and produces no challenge.
\<close>

theorem generate_challenge_secure_or_error:
  assumes "len \<le> 64" and "RAND_bytes (static_cast_int len) = (ret, bs)"
  shows "(ret = 1 \<and> length bs = len \<longrightarrow> generate_challenge RAND_bytes len = Inr bs) \<and>
         (ret = 0 \<and> length bs \<le> 64 \<longrightarrow>
            generate_challenge RAND_bytes len
              = Inl (Runtime_error ''Failed to generate random challenge''))"
  using assms by (simp add: generate_challenge_eq)

theorem generate_challenge_secure_or_error_witness:
  "(16::nat) \<le> 64 \<and> sample_rand (static_cast_int 16) = (1, sample_challenge) \<and>
   length sample_challenge = 16 \<and>
   generate_challenge sample_rand 16 = Inr sample_challenge \<and>
   failing_rand (static_cast_int 16) = (0, []) \<and>
   generate_challenge failing_rand 16 = Inl (Runtime_error ''Failed to generate random challenge'')"
proof -
  have ko: "failing_rand (static_cast_int 16) = (0, [])"
    by (simp add: failing_rand_def)
  show ?thesis
    using generate_challenge_secure_or_error [of 16 sample_rand 1 sample_challenge]
      generate_challenge_secure_or_error [of 16 failing_rand 0 "[]"] sample_rand_16 ko
    by (simp add: sample_challenge_def)
qed

text \<open>
  Claim C8. The length defaults to 16. The bytes go into a buffer of 64 bytes, and no
  length is rejected: for a length above 64 and a source that reports success, the code
  runs past the end of the buffer. For every length of at most 64, with a source that
  reports success and stays inside the buffer, the returned string has exactly that many
  bytes, the first ones of the buffer.
\<close>

theorem generate_challenge_default_and_bound:
  "generate_challenge_default RAND_bytes = generate_challenge RAND_bytes 16 \<and>
   (64 < len \<longrightarrow> fst (RAND_bytes (static_cast_int len)) \<noteq> 0 \<longrightarrow>
      generate_challenge RAND_bytes len = Inl Out_of_bounds) \<and>
   (len \<le> 64 \<longrightarrow> fst (RAND_bytes (static_cast_int len)) \<noteq> 0 \<longrightarrow>
      length (snd (RAND_bytes (static_cast_int len))) \<le> 64 \<longrightarrow>
      (\<exists>s. generate_challenge RAND_bytes len = Inr s \<and> length s = len \<and>
           s = take len (snd (RAND_bytes (static_cast_int len))
                 @ drop (length (snd (RAND_bytes (static_cast_int len)))) (zero_buffer 64))))"
  by (auto simp: generate_challenge_default_def generate_challenge_eq zero_buffer_def)

theorem generate_challenge_default_and_bound_witness:
  "(64::nat) < 65 \<and> fst (sample_rand (static_cast_int 65)) \<noteq> 0 \<and>
   generate_challenge sample_rand 65 = Inl Out_of_bounds \<and>
   (16::nat) \<le> 64 \<and> fst (sample_rand (static_cast_int 16)) \<noteq> 0 \<and>
   length (snd (sample_rand (static_cast_int 16))) \<le> 64 \<and>
   generate_challenge sample_rand 16 = Inr sample_challenge \<and> length sample_challenge = 16 \<and>
   generate_challenge_default sample_rand = Inr sample_challenge"
proof -
  have big: "fst (sample_rand (static_cast_int 65)) \<noteq> 0"
    by (simp add: sample_rand_def)
  show ?thesis
    using generate_challenge_default_and_bound [of sample_rand 65]
      generate_challenge_default_and_bound [of sample_rand 16] big sample_rand_16
    by (simp add: sample_challenge_def zero_buffer_def)
qed

subsection \<open>Closing the client socket\<close>

text \<open>
  \<open>handle_client\<close> closes the client socket once when it returns, and not at all when
  it throws or is killed.
\<close>

lemma handle_client_close_count:
  "close_count sock (trace (snd (handle_client RAND_bytes HMAC S sock w))) =
     close_count sock (trace w)
       + (if fst (handle_client RAND_bytes HMAC S sock w) = Inr () then 1 else 0)"
  by (simp add: handle_client_eq trace_greeted trace_emit trace_send_message trace_read_message
        trace_challenge_issued close_count_append split: sum.splits)

lemma failing_gen:
  "generate_challenge_default failing_rand
     = Inl (Runtime_error ''Failed to generate random challenge'')"
  by (simp add: generate_challenge_default_def generate_challenge_eq failing_rand_def)

lemma null_mac: "compute_hmac null_hmac C S = Inl (Runtime_error ''HMAC computation failed'')"
  by (simp add: compute_hmac_def null_hmac_def)

lemma failing_session_trace:
  "trace (greeted 4 honest_session) = [Cout (''Client: hello'' @ newline)]"
  by (simp add: trace_greeted honest_hello) (simp add: honest_session_def arriving_def quiet_def)

lemma trace_greeted_emit:
  "trace (greeted sock (emit e w)) =
     trace w @ [e, Cout (''Client: '' @ fst (read_message sock w) @ newline)]"
  by (simp add: trace_greeted trace_emit fst_read_message_emit)

text \<open>
  Claim C7 fails on the code. The claim: on every exit path of a Session, the error paths
  included, the client socket is closed exactly once. The code: when challenge generation
  throws, \<open>handle_client\<close> is left after its first step, and when the HMAC computation
  throws, after the challenge was sent; in both cases \<^verbatim>\<open>close(client_sock)\<close> is never
  reached. \<open>main\<close> catches the exception, writes it to \<^verbatim>\<open>std::cerr\<close> and returns 0:
  its whole trace has no close of the client socket 4.
\<close>

theorem exception_leaves_client_socket_open:
  "fst (handle_client failing_rand sample_hmac SHARED_SECRET 4 honest_session) =
     Inl (Runtime_error ''Failed to generate random challenge'') \<and>
   trace (snd (handle_client failing_rand sample_hmac SHARED_SECRET 4 honest_session)) =
     [Cout (''Client: hello'' @ newline)] \<and>
   fst (handle_client sample_rand null_hmac SHARED_SECRET 4 honest_session) =
     Inl (Runtime_error ''HMAC computation failed'') \<and>
   trace (snd (handle_client sample_rand null_hmac SHARED_SECRET 4 honest_session)) =
     [Cout (''Client: hello'' @ newline), Send 4 sample_challenge] \<and>
   fst (main failing_rand sample_hmac sample_sys honest_session) = Inr 0 \<and>
   trace (snd (main failing_rand sample_hmac sample_sys honest_session)) =
     [Cout (''Server listening on port 12345...'' @ newline),
      Cout (''Client: hello'' @ newline),
      Cerr (''Server error: Failed to generate random challenge'' @ newline)] \<and>
   close_count 4 (trace (snd (main failing_rand sample_hmac sample_sys honest_session))) = 0"
proof -
  have m: "main failing_rand sample_hmac sample_sys honest_session =
     (Inr 0, emit (Cerr (''Server error: Failed to generate random challenge'' @ newline))
        (greeted 4 (emit (Cout (''Server listening on port 12345...'' @ newline))
           honest_session)))"
    by (simp add: main_def main_try_def create_server_socket_def sample_sys_def
          handle_client_eq failing_gen)
  have t: "trace (snd (main failing_rand sample_hmac sample_sys honest_session)) =
     [Cout (''Server listening on port 12345...'' @ newline),
      Cout (''Client: hello'' @ newline),
      Cerr (''Server error: Failed to generate random challenge'' @ newline)]"
    by (simp add: m trace_emit trace_greeted_emit honest_hello)
       (simp add: honest_session_def arriving_def quiet_def)
  have r: "fst (main failing_rand sample_hmac sample_sys honest_session) = Inr 0"
    by (simp add: m)
  have c: "close_count 4
             (trace (snd (main failing_rand sample_hmac sample_sys honest_session))) = 0"
    by (simp add: t)
  have n: "next_send 4 honest_session = Accepted"
    by (simp add: next_send_free honest_session_free)
  show ?thesis
    by (simp add: t r c n handle_client_eq failing_gen sample_gen null_mac trace_read_message
          honest_session_trace failing_session_trace)
qed

subsection \<open>The whole of main on a session that succeeds\<close>

lemma main_eq:
  assumes "create_server_socket sys = Inr server_sock" and "0 \<le> accept_ret sys"
  shows "main RAND_bytes HMAC sys w =
     (case fst (handle_client RAND_bytes HMAC SHARED_SECRET (accept_ret sys)
                 (emit (Cout (''Server listening on port 12345...'' @ newline)) w)) of
        Inl (Runtime_error msg) \<Rightarrow>
          (Inr 0, emit (Cerr (''Server error: '' @ msg @ newline))
             (snd (handle_client RAND_bytes HMAC SHARED_SECRET (accept_ret sys)
                    (emit (Cout (''Server listening on port 12345...'' @ newline)) w))))
      | Inl Out_of_bounds \<Rightarrow>
          (Inl Out_of_bounds,
           snd (handle_client RAND_bytes HMAC SHARED_SECRET (accept_ret sys)
                  (emit (Cout (''Server listening on port 12345...'' @ newline)) w)))
      | Inl Sigpipe \<Rightarrow>
          (Inl Sigpipe,
           snd (handle_client RAND_bytes HMAC SHARED_SECRET (accept_ret sys)
                  (emit (Cout (''Server listening on port 12345...'' @ newline)) w)))
      | Inr u \<Rightarrow>
          (Inr 0, emit (Close server_sock)
             (snd (handle_client RAND_bytes HMAC SHARED_SECRET (accept_ret sys)
                    (emit (Cout (''Server listening on port 12345...'' @ newline)) w)))))"
  using assms
  by (simp add: main_def main_try_def Let_def split: prod.splits sum.splits failure.splits)

lemma sample_sys_ok: "create_server_socket sample_sys = Inr 3" "accept_ret sample_sys = 4"
  by (simp_all add: create_server_socket_def sample_sys_def)

lemma main_honest_session:
  "fst (main sample_rand sample_hmac sample_sys honest_session) = Inr 0 \<and>
   trace (snd (main sample_rand sample_hmac sample_sys honest_session)) =
     [Cout (''Server listening on port 12345...'' @ newline),
      Cout (''Client: hello'' @ newline),
      Send 4 sample_challenge,
      Send 4 ''Authentication successful. Welcome!'',
      Close 4, Close 3]"
proof -
  let ?w1 = "emit (Cout (''Server listening on port 12345...'' @ newline)) honest_session"
  have w1: "?w1 = arriving 4 [Segment ''hello'', Segment sample_digest]
                    (emit (Cout (''Server listening on port 12345...'' @ newline)) quiet)"
    by (simp add: honest_session_def arriving_def emit_def)
  have rd: "fst (read_message 4 (challenge_issued 4 sample_challenge ?w1)) = sample_digest"
    unfolding w1
    by (simp add: sample_digest_def read_message_Segment [where rest = "[]"] rx_after_first)
  have tx0: "tx ?w1 4 = []"
    by (simp add: tx_emit honest_session_free)
  have n0: "next_send 4 ?w1 = Accepted"
    using tx0 by (rule next_send_free)
  have n1: "next_send 4 ?w1 \<noteq> Broken_pipe"
    unfolding n0 by simp
  have n2: "next_send 4 (challenge_issued 4 sample_challenge ?w1) = Accepted"
    using tx0 by (intro next_send_free tx_challenge_issued_free)
  have tr: "trace (challenge_issued 4 sample_challenge ?w1) =
              [Cout (''Server listening on port 12345...'' @ newline),
               Cout (''Client: hello'' @ newline), Send 4 sample_challenge]"
    unfolding trace_challenge_issued n0
    by (simp add: fst_read_message_emit honest_hello trace_emit)
       (simp add: honest_session_def arriving_def quiet_def)
  note hc = handle_client_verdict [OF sample_gen sample_mac n1 n2]
  have m: "main sample_rand sample_hmac sample_sys honest_session =
          (Inr 0, emit (Close 3) (snd (handle_client sample_rand sample_hmac SHARED_SECRET 4 ?w1)))"
    by (simp only: main_eq [where server_sock = 3 and sys = sample_sys, OF sample_sys_ok(1)]
          sample_sys_ok hc(1)) simp
  show ?thesis
    by (simp only: m fst_conv snd_conv trace_emit hc(2) tr rd) simp
qed

end
